theory Spec2Isabelle
  imports Complex_Main "HOL-Library.AList" "HOL-Library.Sublist"
begin

section \<open>Python values, errors and dictionaries\<close>

text \<open>
  The values that \<^verbatim>\<open>pipedrive/base.py\<close> handles: decoded JSON (null, booleans,
  unbounded integers, floats, strings, lists, objects) and references to Python objects
  (a gateway, a resource client). A Python dict is an association list read through
  \<open>map_of\<close>; its keys are strings, as in decoded JSON.
\<close>

type_synonym addr = nat

datatype pyval =
    PNone
  | PBool bool
  | PInt int
  | PFloat real
  | PStr string
  | PList "pyval list"
  | PDict "(string \<times> pyval) list"
  | PObj addr

type_synonym dict = "(string \<times> pyval) list"

text \<open>Every \<^verbatim>\<open>raise\<close> of the code and of the libraries it calls is a value.\<close>

datatype error =
    AttributeError
  | TypeError
  | IndexError
  | KeyError
  | ValueError
  | External string



definition keys :: "dict \<Rightarrow> string list" where
  "keys d = remdups (map fst d)"

section \<open>Record projection: \<^verbatim>\<open>dict_to_model\<close>\<close>

text \<open>
  A schematics field type carries its declared serialized name (\<^verbatim>\<open>None\<close> when none
  is declared). A model class is its \<^verbatim>\<open>fields\<close> table (written \<open>fields'\<close>); its constructor
  \<^verbatim>\<open>model_class(raw_data=...)\<close> belongs to the schematics library, so it is a component
  of the class: it returns a record or raises.
\<close>

record BaseType =
  serialized_name :: "string option"

record 'r model_class =
  fields' :: "(string \<times> BaseType) list"
  construct :: "dict \<Rightarrow> error + 'r"

text \<open>\<^verbatim>\<open>serialized_name or field_name\<close>: \<^verbatim>\<open>None\<close> and the empty string are false.\<close>

definition name_or :: "string option \<Rightarrow> string \<Rightarrow> string" where
  "name_or serialized field_name =
     (case serialized of
        None \<Rightarrow> field_name
      | Some s \<Rightarrow> if s = [] then field_name else s)"

text \<open>
  \<^verbatim>\<open>set([fields[field_name].serialized_name or field_name for field_name in fields])\<close>
\<close>

definition model_keys :: "'r model_class \<Rightarrow> string set" where
  "model_keys model_class =
     set (map (\<lambda>field_name.
                name_or (serialized_name (the (map_of (fields' model_class) field_name))) field_name)
              (map fst (fields' model_class)))"

text \<open>
  \<^verbatim>\<open>safe_keys = set(data.keys()).intersection(model_keys)\<close> and
  \<^verbatim>\<open>safe_data = {key: data[key] for key in safe_keys}\<close>. The new dict lists the
  safe keys in the order of \<open>data\<close>, each once.
\<close>

definition safe_keys :: "dict \<Rightarrow> 'r model_class \<Rightarrow> string set" where
  "safe_keys data model_class = set (keys data) \<inter> model_keys model_class"

definition safe_data :: "dict \<Rightarrow> 'r model_class \<Rightarrow> dict" where
  "safe_data data model_class =
     map (\<lambda>key. (key, the (map_of data key)))
         (filter (\<lambda>key. key \<in> safe_keys data model_class) (keys data))"

text \<open>
  \<^verbatim>\<open>dict_to_model\<close> on a value: \<^verbatim>\<open>None\<close> gives \<^verbatim>\<open>None\<close>; a dict gives the
  record constructed from the safe data; any other value has no \<^verbatim>\<open>keys\<close> method
  (\<^verbatim>\<open>deepcopy\<close> of a value is the value).
\<close>

definition dict_to_model :: "pyval \<Rightarrow> 'r model_class \<Rightarrow> error + 'r option" where
  "dict_to_model data model_class =
     (case data of
        PNone \<Rightarrow> Inr None
      | PDict d \<Rightarrow>
          (case construct model_class (safe_data d model_class) of
             Inl e \<Rightarrow> Inl e
           | Inr r \<Rightarrow> Inr (Some r))
      | _ \<Rightarrow> Inl AttributeError)"

text \<open>
  The known-key set as the specification words it: the union of every field's
  internal name and every declared serialized name.
\<close>

definition known_keys_spec :: "'r model_class \<Rightarrow> string set" where
  "known_keys_spec model_class =
     fst ` set (fields' model_class) \<union>
     {s. \<exists>f \<in> snd ` set (fields' model_class). serialized_name f = Some s}"

section \<open>Paginated collection: \<^verbatim>\<open>CollectionResponse\<close>\<close>

text \<open>
  A \<^verbatim>\<open>requests.Response\<close> as this module uses it: its \<^verbatim>\<open>ok\<close> flag and what
  \<^verbatim>\<open>json()\<close> returns or raises. \<^verbatim>\<open>MockResponse\<close> is the subclass defined inside
  \<^verbatim>\<open>send_request\<close>, whose \<^verbatim>\<open>json()\<close> returns \<^verbatim>\<open>{}\<close>; it is built with no
  status code, which requests reports as ok under Python 2, the language of this module
  (both hooks that depend on the flag do nothing).
\<close>

datatype response =
    MockResponse
  | Response bool "error + pyval"

fun response_ok :: "response \<Rightarrow> bool" where
  "response_ok MockResponse = True"
| "response_ok (Response b j) = b"

fun response_json :: "response \<Rightarrow> error + pyval" where
  "response_json MockResponse = Inr (PDict [])"
| "response_json (Response b j) = j"















section \<open>Objects, the store and the transport\<close>

text \<open>
  Mutable objects live in a store and are passed by address, so that aliasing between a
  caller's object and a callee's parameter is visible: dict objects (whose values are
  immutable), gateway objects and resource clients. \<open>next_addr\<close> is the allocation
  counter; the addresses below it are the objects that exist. The class attribute
  \<^verbatim>\<open>PipedriveAPI.resource_registry\<close> is process-wide state, and \<open>sent\<close> lists the calls
  that reached the transport (\<^verbatim>\<open>requests.request\<close>), oldest first.
\<close>

record PipedriveAPI =
  api_token :: pyval
  attrs :: "(string \<times> addr) list"

record resource_class =
  API_ACESSOR_NAME :: string
  LIST_REQ_PATH :: "string option"
  DETAIL_REQ_PATH :: "string option"
  FIND_REQ_PATH :: "string option"
  RELATED_ENTITIES_PATH :: "string option"

record BaseResource =
  resource_type :: resource_class
  api :: addr

record request =
  req_method :: string
  req_url :: string
  req_params :: dict
  req_data :: pyval

record world =
  dicts :: "addr \<Rightarrow> dict"
  gateways :: "addr \<Rightarrow> PipedriveAPI"
  resources :: "addr \<Rightarrow> BaseResource"
  next_addr :: addr
  resource_registry :: "(string \<times> resource_class) list"
  sent :: "request list"

definition allocated :: "world \<Rightarrow> addr \<Rightarrow> bool" where
  "allocated w a = (a < next_addr w)"

definition BASE_URL :: string where
  "BASE_URL = ''https://api.pipedrive.com/v1''"

text \<open>A dict display or comprehension creates a new dict object.\<close>

definition new_dict :: "dict \<Rightarrow> world \<Rightarrow> addr \<times> world" where
  "new_dict d w =
     (next_addr w, w\<lparr>dicts := (dicts w)(next_addr w := d), next_addr := Suc (next_addr w)\<rparr>)"

text \<open>\<^verbatim>\<open>params[key] = value\<close> on the dict object at \<open>p\<close>.\<close>

definition dict_setitem :: "addr \<Rightarrow> string \<Rightarrow> pyval \<Rightarrow> world \<Rightarrow> world" where
  "dict_setitem p key v w = w\<lparr>dicts := (dicts w)(p := AList.update key v (dicts w p))\<rparr>"

text \<open>
  \<^verbatim>\<open>params = params or {}\<close>: \<^verbatim>\<open>None\<close> and an empty dict are both false, and
  then the name is bound to a new empty dict.
\<close>

definition params_or_new :: "addr option \<Rightarrow> world \<Rightarrow> addr \<times> world" where
  "params_or_new params w =
     (case params of
        None \<Rightarrow> new_dict [] w
      | Some p \<Rightarrow> if dicts w p = [] then new_dict [] w else (p, w))"

section \<open>The gateway: \<^verbatim>\<open>PipedriveAPI\<close>\<close>

text \<open>
  Instance attributes of a gateway: \<^verbatim>\<open>api_token\<close>, set by \<^verbatim>\<open>__init__\<close>, and
  whatever \<^verbatim>\<open>setattr\<close> stored later.
\<close>

definition PipedriveAPI_init :: "pyval \<Rightarrow> world \<Rightarrow> addr \<times> world" where
  "PipedriveAPI_init token w =
     (next_addr w,
      w\<lparr>gateways := (gateways w)(next_addr w := \<lparr>api_token = token, attrs = []\<rparr>),
        next_addr := Suc (next_addr w)\<rparr>)"

definition api_setattr :: "string \<Rightarrow> addr \<Rightarrow> PipedriveAPI \<Rightarrow> PipedriveAPI" where
  "api_setattr name obj g =
     (if name = ''api_token'' then g\<lparr>api_token := PObj obj\<rparr>
      else g\<lparr>attrs := AList.update name obj (attrs g)\<rparr>)"

definition api_instance_attr :: "PipedriveAPI \<Rightarrow> string \<Rightarrow> pyval option" where
  "api_instance_attr g name =
     (if name = ''api_token'' then Some (api_token g)
      else map_option PObj (map_of (attrs g) name))"

definition register_resource :: "resource_class \<Rightarrow> world \<Rightarrow> world" where
  "register_resource resource_class w =
     w\<lparr>resource_registry :=
         AList.update (API_ACESSOR_NAME resource_class) resource_class (resource_registry w)\<rparr>"

text \<open>
  \<^verbatim>\<open>BaseResource.__init__\<close>: the new client keeps the gateway and stores itself
  on it under its accessor name.
\<close>

definition BaseResource_init :: "resource_class \<Rightarrow> addr \<Rightarrow> world \<Rightarrow> addr \<times> world" where
  "BaseResource_init cls api_ref w =
     (let self = next_addr w;
          w1 = w\<lparr>resources := (resources w)(self := \<lparr>resource_type = cls, api = api_ref\<rparr>),
                 next_addr := Suc self\<rparr>;
          w2 = w1\<lparr>gateways := (gateways w1)
                 (api_ref := api_setattr (API_ACESSOR_NAME cls) self (gateways w1 api_ref))\<rparr>
      in (self, w2))"

text \<open>
  \<^verbatim>\<open>__getattr__\<close>, which Python calls for a name that normal attribute lookup did
  not find: a \<^verbatim>\<open>KeyError\<close> of the registry becomes an \<^verbatim>\<open>AttributeError\<close>.
\<close>

definition PipedriveAPI_getattr :: "addr \<Rightarrow> string \<Rightarrow> world \<Rightarrow> (error + addr) \<times> world" where
  "PipedriveAPI_getattr self item w =
     (case map_of (resource_registry w) item of
        None \<Rightarrow> (Inl AttributeError, w)
      | Some cls \<Rightarrow> (case BaseResource_init cls self w of (r, w') \<Rightarrow> (Inr r, w')))"

text \<open>
  \<^verbatim>\<open>PipedriveAPI.send_request\<close>. The transport is a parameter: what it returns or
  raises for a request. An exception of the transport is logged and raised again; a
  \<^verbatim>\<open>path\<close> that is \<^verbatim>\<open>None\<close> makes \<^verbatim>\<open>BASE_URL + path\<close> a \<^verbatim>\<open>TypeError\<close>.
\<close>

definition PipedriveAPI_send_request ::
    "(request \<Rightarrow> error + response) \<Rightarrow> addr \<Rightarrow> string \<Rightarrow> string option \<Rightarrow> addr option \<Rightarrow> pyval
      \<Rightarrow> world \<Rightarrow> (error + response) \<times> world" where
  "PipedriveAPI_send_request transport self method path params data w =
     (if api_token (gateways w self) = PNone \<or> api_token (gateways w self) = PStr []
      then (Inr MockResponse, w)
      else
        (case params_or_new params w of
           (p, w1) \<Rightarrow>
             (let w2 = dict_setitem p ''api_token'' (api_token (gateways w1 self)) w1
              in case path of
                   None \<Rightarrow> (Inl TypeError, w2)
                 | Some pth \<Rightarrow>
                     (let url = BASE_URL @ pth;
                          req = \<lparr>req_method = method, req_url = url,
                                 req_params = dicts w2 p, req_data = data\<rparr>
                      in (transport req, w2\<lparr>sent := sent w2 @ [req]\<rparr>)))))"

section \<open>The resource client: \<^verbatim>\<open>BaseResource\<close>\<close>

text \<open>The two hooks of \<^verbatim>\<open>BaseResource\<close> are \<^verbatim>\<open>pass\<close>: they change nothing.\<close>

definition process_success :: "addr \<Rightarrow> response \<Rightarrow> world \<Rightarrow> world" where
  "process_success self response w = w"

definition process_error :: "addr \<Rightarrow> response \<Rightarrow> world \<Rightarrow> world" where
  "process_error self response w = w"

definition BaseResource_send_request ::
    "(request \<Rightarrow> error + response) \<Rightarrow> addr \<Rightarrow> string \<Rightarrow> string option \<Rightarrow> addr option \<Rightarrow> pyval
      \<Rightarrow> world \<Rightarrow> (error + response) \<times> world" where
  "BaseResource_send_request transport self method path params data w =
     (case PipedriveAPI_send_request transport (api (resources w self)) method path params data w of
        (Inl e, w1) \<Rightarrow> (Inl e, w1)
      | (Inr response, w1) \<Rightarrow>
          (Inr response,
           if response_ok response then process_success self response w1
           else process_error self response w1))"

definition BaseResource_find ::
    "(request \<Rightarrow> error + response) \<Rightarrow> addr \<Rightarrow> pyval \<Rightarrow> addr option \<Rightarrow> pyval
      \<Rightarrow> world \<Rightarrow> (error + response) \<times> world" where
  "BaseResource_find transport self term params data w =
     (case params_or_new params w of
        (p, w1) \<Rightarrow>
          (let w2 = dict_setitem p ''term'' term w1
           in BaseResource_send_request transport self ''GET''
                (FIND_REQ_PATH (resource_type (resources w2 self))) (Some p) data w2))"

section \<open>Record projection on a dict object of the store\<close>

text \<open>
  \<^verbatim>\<open>dict_to_model\<close> statement by statement when \<open>data\<close> is \<^verbatim>\<open>None\<close> or the
  address of a dict object: \<^verbatim>\<open>deepcopy\<close> creates a new object with the same
  contents, the comprehension creates the dict of the safe data, and the constructor
  receives that dict.
\<close>

definition deepcopy :: "addr \<Rightarrow> world \<Rightarrow> addr \<times> world" where
  "deepcopy a w = new_dict (dicts w a) w"

definition dict_to_model_obj ::
    "addr option \<Rightarrow> 'r model_class \<Rightarrow> world \<Rightarrow> (error + 'r option) \<times> world" where
  "dict_to_model_obj data model_class w =
     (case data of
        None \<Rightarrow> (Inr None, w)
      | Some a \<Rightarrow>
          (case deepcopy a w of
             (copy, w1) \<Rightarrow>
               (case new_dict (safe_data (dicts w1 copy) model_class) w1 of
                  (sd, w2) \<Rightarrow>
                    (case construct model_class (dicts w2 sd) of
                       Inl e \<Rightarrow> (Inl e, w2)
                     | Inr r \<Rightarrow> (Inr (Some r), w2)))))"

section \<open>A worked response\<close>

text \<open>
  The end-to-end scenario of the specification: a schema with the fields \<^verbatim>\<open>id\<close> and
  \<^verbatim>\<open>name\<close>, whose records are the data they are constructed from, and a response
  with one document, an unknown key and a pagination block.
\<close>

definition example_schema :: "dict model_class" where
  "example_schema =
     \<lparr>fields' = [(''id'', \<lparr>serialized_name = None\<rparr>), (''name'', \<lparr>serialized_name = None\<rparr>)],
      construct = Inr\<rparr>"

definition example_pagination :: dict where
  "example_pagination =
     [(''start'', PInt 0), (''limit'', PInt 100), (''next_start'', PInt 100),
      (''more_items_in_collection'', PBool True)]"

definition example_document :: dict where
  "example_document =
     [(''data'', PList [PDict [(''id'', PInt 1), (''name'', PStr ''Ann''), (''secret'', PStr ''x'')]]),
      (''success'', PBool True),
      (''additional_data'', PDict [(''pagination'', PDict example_pagination)])]"


text \<open>
  A store for the scenario: a gateway with a token at 0 and one without at 5, the
  document at 1, a caller's query parameters at 2, an empty dict at 4, and a client of
  the resource type \<^verbatim>\<open>deals\<close> at 3, attached to the gateway at 0. The class
  attributes of \<^verbatim>\<open>BaseResource\<close> itself are \<open>base_resource\<close>.
\<close>

definition base_resource :: resource_class where
  "base_resource =
     \<lparr>API_ACESSOR_NAME = [], LIST_REQ_PATH = None, DETAIL_REQ_PATH = None,
      FIND_REQ_PATH = None, RELATED_ENTITIES_PATH = None\<rparr>"

definition deals :: resource_class where
  "deals = base_resource\<lparr>API_ACESSOR_NAME := ''deals'', LIST_REQ_PATH := Some ''/deals'',
                          FIND_REQ_PATH := Some ''/deals/find''\<rparr>"

definition example_world :: world where
  "example_world =
     \<lparr>dicts = (\<lambda>_. [])(1 := [(''id'', PInt 1), (''name'', PStr ''Ann''), (''secret'', PStr ''x'')],
                        2 := [(''limit'', PInt 10)]),
      gateways = (\<lambda>_. \<lparr>api_token = PNone, attrs = []\<rparr>)
                   (0 := \<lparr>api_token = PStr ''t0k'', attrs = []\<rparr>),
      resources = (\<lambda>_. \<lparr>resource_type = base_resource, api = 0\<rparr>)
                    (3 := \<lparr>resource_type = deals, api = 0\<rparr>),
      next_addr = 6,
      resource_registry = [(''deals'', deals)],
      sent = []\<rparr>"

definition example_transport :: "request \<Rightarrow> error + response" where
  "example_transport req = Inr (Response True (Inr (PDict example_document)))"

section \<open>Properties of record projection\<close>

lemma map_of_fields_defined:
  "n \<in> fst ` set fs \<Longrightarrow> \<exists>f. map_of fs n = Some f"
  by (metis domD dom_map_of_conv_image_fst)

lemma model_keys_char:
  "model_keys S = {name_or (serialized_name f) n | n f. map_of (fields' S) n = Some f}"
  unfolding model_keys_def
  apply (auto simp: image_iff)
   apply (metis map_of_fields_defined fst_conv image_eqI option.sel)
  by (metis map_of_SomeD fst_conv option.sel)

lemma set_keys: "set (keys d) = fst ` set d"
  by (simp add: keys_def)

lemma keys_safe_data: "map fst (safe_data D S) = filter (\<lambda>key. key \<in> safe_keys D S) (keys D)"
  by (simp add: safe_data_def comp_def)

lemma distinct_safe_data: "distinct (map fst (safe_data D S))"
  by (simp add: keys_safe_data keys_def)

lemma map_of_safe_data:
  "map_of (safe_data D S) k = (if k \<in> model_keys S then map_of D k else None)"
proof (cases "k \<in> safe_keys D S")
  case True
  then have "k \<in> fst ` set D" "k \<in> model_keys S" by (auto simp: safe_keys_def set_keys)
  then obtain v where v: "map_of D k = Some v" using map_of_fields_defined by metis
  have "(k, the (map_of D k)) \<in> set (safe_data D S)"
    using True by (auto simp: safe_data_def safe_keys_def)
  then have "map_of (safe_data D S) k = Some (the (map_of D k))"
    using distinct_safe_data by (metis map_of_is_SomeI)
  then show ?thesis using v \<open>k \<in> model_keys S\<close> by simp
next
  case False
  then have "k \<notin> fst ` set (safe_data D S)"
    using False by (simp only: set_map[symmetric] keys_safe_data) auto
  then have n: "map_of (safe_data D S) k = None" by (simp add: map_of_eq_None_iff)
  show ?thesis
  proof (cases "k \<in> model_keys S")
    case True
    then have "k \<notin> fst ` set D" using False by (simp add: safe_keys_def set_keys)
    then have "map_of D k = None" by (simp add: map_of_eq_None_iff)
    then show ?thesis using n True by simp
  next
    case False
    then show ?thesis using n by simp
  qed
qed

text \<open>
  C1, as the code has it: the record of a raw document \<open>D\<close> is constructed from data
  whose keys are exactly the keys of \<open>D\<close> in the known-key set of the schema, each with
  the value it has in \<open>D\<close>; no other key of \<open>D\<close> reaches the record. The known-key set
  holds one name for every field: its declared serialized name when it declares a
  non-empty one, its internal field name otherwise.
\<close>

theorem dict_to_model_projection:
  "dict_to_model (PDict D) S =
     (case construct S (safe_data D S) of Inl e \<Rightarrow> Inl e | Inr r \<Rightarrow> Inr (Some r))
   \<and> set (keys (safe_data D S)) = set (keys D) \<inter> model_keys S
   \<and> map_of (safe_data D S) = map_of D |` model_keys S
   \<and> model_keys S = {name_or (serialized_name f) n | n f. map_of (fields' S) n = Some f}"
proof -
  have 1: "set (keys (safe_data D S)) = set (keys D) \<inter> model_keys S"
    unfolding set_keys by (simp only: set_map[symmetric] keys_safe_data) (auto simp: safe_keys_def set_keys)
  have 2: "map_of (safe_data D S) = map_of D |` model_keys S"
    by (rule ext) (simp add: map_of_safe_data restrict_map_def)
  show ?thesis using 1 2 model_keys_char by (simp add: dict_to_model_def)
qed

text \<open>
  C1 as stated fails: with the known-key set read as the union of field names and
  declared serialized names, a field \<^verbatim>\<open>foo\<close> serialized as \<^verbatim>\<open>bar\<close> makes \<^verbatim>\<open>foo\<close>
  a known key, yet the key \<^verbatim>\<open>foo\<close> of a document is dropped.
\<close>

theorem dict_to_model_union_counterexample:
  "dict_to_model (PDict [(''foo'', PInt 1)])
      \<lparr>fields' = [(''foo'', \<lparr>serialized_name = Some ''bar''\<rparr>)], construct = Inr\<rparr> = Inr (Some [])
   \<and> ''foo'' \<in> set (keys [(''foo'', PInt 1)])
        \<inter> known_keys_spec \<lparr>fields' = [(''foo'', \<lparr>serialized_name = Some ''bar''\<rparr>)],
                             construct = (Inr :: dict \<Rightarrow> error + dict)\<rparr>"
  by (simp add: dict_to_model_def safe_data_def safe_keys_def keys_def model_keys_def name_or_def known_keys_spec_def)

text \<open>
  C2, as the code has it: projection of a null document is null (no record); projection
  of an empty document is not null, it is whatever the constructor makes of the empty
  data.
\<close>

theorem dict_to_model_null_or_empty:
  "dict_to_model PNone S = Inr None
   \<and> dict_to_model_obj None S w = (Inr None, w)
   \<and> dict_to_model (PDict []) S =
       (case construct S [] of Inl e \<Rightarrow> Inl e | Inr r \<Rightarrow> Inr (Some r))
   \<and> dict_to_model (PDict []) S \<noteq> Inr None"
  by (simp add: dict_to_model_def dict_to_model_obj_def safe_data_def keys_def split: sum.splits)

text \<open>
  C2 as stated fails: an empty document is projected to an empty record, not to null.
\<close>

theorem dict_to_model_empty_counterexample:
  "dict_to_model (PDict []) \<lparr>fields' = [(''id'', \<lparr>serialized_name = None\<rparr>)], construct = Inr\<rparr>
     = Inr (Some [])"
  by (simp add: dict_to_model_def safe_data_def keys_def)

section \<open>Properties of the paginated collection\<close>






















section \<open>Projection leaves its input alone\<close>

text \<open>
  C3: projection of a dict object \<open>D\<close> of the store leaves \<open>D\<close>, and every other object
  that existed before the call, with the contents it had: the call only creates objects.
  What it returns is the projection of the contents of \<open>D\<close>.
\<close>

theorem dict_to_model_obj_frame:
  assumes "allocated w a"
  shows "dicts (snd (dict_to_model_obj (Some a) S w)) a = dicts w a
       \<and> (\<forall>b. allocated w b \<longrightarrow> dicts (snd (dict_to_model_obj (Some a) S w)) b = dicts w b)
       \<and> fst (dict_to_model_obj (Some a) S w) = dict_to_model (PDict (dicts w a)) S"
  using assms
  by (auto simp: dict_to_model_obj_def deepcopy_def new_dict_def allocated_def dict_to_model_def
           split: sum.splits prod.splits)

theorem dict_to_model_obj_frame_witness:
  "allocated example_world 1
   \<and> dicts example_world 1 = [(''id'', PInt 1), (''name'', PStr ''Ann''), (''secret'', PStr ''x'')]
   \<and> fst (dict_to_model_obj (Some 1) example_schema example_world)
       = Inr (Some [(''id'', PInt 1), (''name'', PStr ''Ann'')])
   \<and> dicts (snd (dict_to_model_obj (Some 1) example_schema example_world)) 1
       = [(''id'', PInt 1), (''name'', PStr ''Ann''), (''secret'', PStr ''x'')]"
proof -
  have a: "allocated example_world 1" by (simp add: allocated_def example_world_def)
  have d: "dicts example_world 1 = [(''id'', PInt 1), (''name'', PStr ''Ann''), (''secret'', PStr ''x'')]"
    by (simp add: example_world_def)
  have p: "dict_to_model (PDict [(''id'', PInt 1), (''name'', PStr ''Ann''), (''secret'', PStr ''x'')])
      example_schema = Inr (Some [(''id'', PInt 1), (''name'', PStr ''Ann'')])"
    by (simp add: dict_to_model_def safe_data_def safe_keys_def keys_def model_keys_def
          name_or_def example_schema_def)
  from dict_to_model_obj_frame [OF a, of example_schema] d p
  show ?thesis using a by simp
qed

section \<open>Properties of the gateway\<close>

text \<open>
  C7: with a token that is \<^verbatim>\<open>None\<close> or the empty string, \<^verbatim>\<open>send_request\<close>
  returns a \<^verbatim>\<open>MockResponse\<close>, whose JSON decode is the empty document, and changes
  nothing: no request reaches the transport.
\<close>

theorem send_request_without_token:
  assumes "api_token (gateways w self) = PNone \<or> api_token (gateways w self) = PStr ''''"
  shows "PipedriveAPI_send_request transport self method path params data w
           = (Inr MockResponse, w)
       \<and> sent (snd (PipedriveAPI_send_request transport self method path params data w)) = sent w
       \<and> response_json MockResponse = Inr (PDict [])"
  using assms by (auto simp: PipedriveAPI_send_request_def)

theorem send_request_without_token_witness:
  "api_token (gateways example_world 5) = PNone
   \<and> PipedriveAPI_send_request example_transport 5 ''GET'' (Some ''/deals'') (Some 2) PNone
        example_world = (Inr MockResponse, example_world)
   \<and> response_json MockResponse = Inr (PDict [])"
proof -
  have t: "api_token (gateways example_world 5) = PNone" by (simp add: example_world_def)
  then have "api_token (gateways example_world 5) = PNone
      \<or> api_token (gateways example_world 5) = PStr ''''" by simp
  from send_request_without_token [OF this, of example_transport "''GET''" "Some ''/deals''" "Some 2" PNone]
  show ?thesis using t by simp
qed

text \<open>
  C8: with any other token, exactly one request reaches the transport; its URL is
  \<^verbatim>\<open>BASE_URL\<close> followed by the path, and its query parameters are the given ones (none
  when \<^verbatim>\<open>params\<close> is \<^verbatim>\<open>None\<close>) with the token under the key \<^verbatim>\<open>api_token\<close>.
\<close>

theorem send_request_with_token:
  assumes "api_token (gateways w self) \<noteq> PNone" and "api_token (gateways w self) \<noteq> PStr ''''"
  shows "fst (PipedriveAPI_send_request transport self method (Some path) params data w)
           = transport \<lparr>req_method = method, req_url = BASE_URL @ path,
                         req_params = AList.update ''api_token'' (api_token (gateways w self))
                                        (case params of None \<Rightarrow> [] | Some p \<Rightarrow> dicts w p),
                         req_data = data\<rparr>
       \<and> sent (snd (PipedriveAPI_send_request transport self method (Some path) params data w))
           = sent w @ [\<lparr>req_method = method, req_url = BASE_URL @ path,
                         req_params = AList.update ''api_token'' (api_token (gateways w self))
                                        (case params of None \<Rightarrow> [] | Some p \<Rightarrow> dicts w p),
                         req_data = data\<rparr>]
       \<and> map_of (AList.update ''api_token'' (api_token (gateways w self))
                    (case params of None \<Rightarrow> [] | Some p \<Rightarrow> dicts w p)) ''api_token''
           = Some (api_token (gateways w self))"
  using assms
  by (auto simp: PipedriveAPI_send_request_def params_or_new_def new_dict_def dict_setitem_def
        Let_def update_conv' split: option.splits)

theorem send_request_with_token_witness:
  "api_token (gateways example_world 0) \<noteq> PNone
   \<and> api_token (gateways example_world 0) \<noteq> PStr ''''
   \<and> sent (snd (PipedriveAPI_send_request example_transport 0 ''GET'' (Some ''/deals'') (Some 2)
        PNone example_world))
       = [\<lparr>req_method = ''GET'', req_url = ''https://api.pipedrive.com/v1/deals'',
           req_params = [(''limit'', PInt 10), (''api_token'', PStr ''t0k'')],
           req_data = PNone\<rparr>]"
proof -
  have t: "api_token (gateways example_world 0) \<noteq> PNone"
    "api_token (gateways example_world 0) \<noteq> PStr ''''" by (simp_all add: example_world_def)
  from send_request_with_token [OF t, of example_transport "''GET''" "''/deals''" "Some 2" PNone]
  show ?thesis using t by (simp add: example_world_def BASE_URL_def)
qed


text \<open>
  C9: resolving a name through \<^verbatim>\<open>__getattr__\<close>: a name that is not registered fails
  with an \<^verbatim>\<open>AttributeError\<close> and changes nothing; a registered name returns an object
  that did not exist before, an instance of the registered resource type attached to
  this gateway, and the gateway now holds that same object under the accessor name of
  the resource type.
\<close>

theorem getattr_resolution:
  "(map_of (resource_registry w) item = None \<longrightarrow>
      PipedriveAPI_getattr self item w = (Inl AttributeError, w))
   \<and> (\<forall>cls. map_of (resource_registry w) item = Some cls \<longrightarrow>
        (\<exists>r w'. PipedriveAPI_getattr self item w = (Inr r, w')
           \<and> \<not> allocated w r \<and> allocated w' r
           \<and> resources w' r = \<lparr>resource_type = cls, api = self\<rparr>
           \<and> api_instance_attr (gateways w' self) (API_ACESSOR_NAME cls) = Some (PObj r)))"
  by (auto simp: PipedriveAPI_getattr_def BaseResource_init_def Let_def allocated_def
        api_instance_attr_def api_setattr_def update_conv')

theorem getattr_resolution_witness:
  "map_of (resource_registry example_world) ''persons'' = None
   \<and> PipedriveAPI_getattr 0 ''persons'' example_world = (Inl AttributeError, example_world)
   \<and> map_of (resource_registry example_world) ''deals'' = Some deals
   \<and> fst (PipedriveAPI_getattr 0 ''deals'' example_world) = Inr 6
   \<and> resources (snd (PipedriveAPI_getattr 0 ''deals'' example_world)) 6
       = \<lparr>resource_type = deals, api = 0\<rparr>
   \<and> api_instance_attr (gateways (snd (PipedriveAPI_getattr 0 ''deals'' example_world)) 0)
        ''deals'' = Some (PObj 6)"
proof -
  have n: "map_of (resource_registry example_world) ''persons'' = None"
    and d: "map_of (resource_registry example_world) ''deals'' = Some deals"
    by (simp_all add: example_world_def)
  have f: "fst (PipedriveAPI_getattr 0 ''deals'' example_world) = Inr 6"
    by (simp add: PipedriveAPI_getattr_def BaseResource_init_def Let_def example_world_def)
  from getattr_resolution [of example_world "''persons''" 0] n
  have 1: "PipedriveAPI_getattr 0 ''persons'' example_world = (Inl AttributeError, example_world)"
    by simp
  from getattr_resolution [of example_world "''deals''" 0] d
  obtain r w' where g: "PipedriveAPI_getattr 0 ''deals'' example_world = (Inr r, w')"
    and r: "resources w' r = \<lparr>resource_type = deals, api = 0\<rparr>"
    and a: "api_instance_attr (gateways w' 0) (API_ACESSOR_NAME deals) = Some (PObj r)"
    by blast
  from g f have "r = 6" by simp
  with g r a have 2: "resources (snd (PipedriveAPI_getattr 0 ''deals'' example_world)) 6
       = \<lparr>resource_type = deals, api = 0\<rparr>"
    and 3: "api_instance_attr (gateways (snd (PipedriveAPI_getattr 0 ''deals'' example_world)) 0)
        ''deals'' = Some (PObj 6)"
    by (simp_all add: deals_def)
  from n 1 d f 2 3 show ?thesis by blast
qed

text \<open>
  After registrations through \<^verbatim>\<open>register_resource\<close> every class is registered under
  its own accessor name, so the name resolved and the name stored coincide.
\<close>

lemma registry_accessor_names:
  assumes "\<forall>k cls. map_of (resource_registry w) k = Some cls \<longrightarrow> API_ACESSOR_NAME cls = k"
  shows "\<forall>k cls. map_of (resource_registry (register_resource c w)) k = Some cls
           \<longrightarrow> API_ACESSOR_NAME cls = k"
  using assms by (auto simp: register_resource_def update_conv')

section \<open>Query parameters are mutated in place\<close>

text \<open>
  A non-empty mapping of the caller is written to; for a null or an empty one the keys
  go to a dict created by the call, and no dict that existed before is written to.
\<close>

lemma mutated_nonempty:
  assumes "dicts w p \<noteq> []"
  shows "(api_token (gateways w self) \<noteq> PNone \<and> api_token (gateways w self) \<noteq> PStr [] \<longrightarrow>
            map_of (dicts (snd (PipedriveAPI_send_request transport self method path (Some p) data w)) p)
              ''api_token'' = Some (api_token (gateways w self)))
       \<and> map_of (dicts (snd (BaseResource_find transport res term (Some p) data w)) p) ''term''
           = Some term"
proof -
  have 1: "api_token (gateways w self) \<noteq> PNone \<and> api_token (gateways w self) \<noteq> PStr [] \<longrightarrow>
            map_of (dicts (snd (PipedriveAPI_send_request transport self method path (Some p) data w)) p)
              ''api_token'' = Some (api_token (gateways w self))"
    using assms
    by (auto simp: PipedriveAPI_send_request_def params_or_new_def dict_setitem_def Let_def
          update_conv' split: option.splits)
  let ?w2 = "dict_setitem p ''term'' term w"
  have ne: "dicts ?w2 p \<noteq> []"
    by (cases "dicts w p") (auto simp: dict_setitem_def)
  have t: "map_of (dicts ?w2 p) ''term'' = Some term"
    by (simp add: dict_setitem_def update_conv')
  have keep: "map_of (dicts (snd (PipedriveAPI_send_request transport g m pth (Some p) data ?w2)) p) ''term''
      = Some term" for g m pth
    using ne t
    by (auto simp: PipedriveAPI_send_request_def params_or_new_def Let_def update_conv'
          dict_setitem_def split: option.splits)
  have 2: "map_of (dicts (snd (BaseResource_find transport res term (Some p) data w)) p) ''term''
           = Some term"
    using assms keep [of "api (resources ?w2 res)" "''GET''" "FIND_REQ_PATH (resource_type (resources ?w2 res))"]
    by (auto simp: BaseResource_find_def params_or_new_def BaseResource_send_request_def
          process_success_def process_error_def Let_def split: prod.splits sum.splits)
  from 1 2 show ?thesis by blast
qed

lemma alloc_frame_send_request:
  assumes "params = None \<or> (\<exists>p. params = Some p \<and> dicts w p = [])" and "allocated w b"
  shows "dicts (snd (PipedriveAPI_send_request transport self method path params data w)) b
           = dicts w b"
  using assms
  by (auto simp: PipedriveAPI_send_request_def params_or_new_def new_dict_def dict_setitem_def
        Let_def allocated_def split: option.splits)

lemma alloc_frame_find:
  assumes "params = None \<or> (\<exists>p. params = Some p \<and> dicts w p = [])" and "allocated w b"
  shows "dicts (snd (BaseResource_find transport res term params data w)) b = dicts w b"
proof -
  let ?n = "next_addr w"
  let ?w1 = "w\<lparr>dicts := (dicts w)(?n := []), next_addr := Suc ?n\<rparr>"
  let ?w2 = "dict_setitem ?n ''term'' term ?w1"
  have p: "params_or_new params w = (?n, ?w1)"
    using assms(1) by (auto simp: params_or_new_def new_dict_def)
  have ne: "dicts ?w2 ?n \<noteq> []" by (simp add: dict_setitem_def)
  have b: "b \<noteq> ?n" using assms(2) by (simp add: allocated_def)
  have keep: "dicts (snd (PipedriveAPI_send_request transport g m pth (Some ?n) data ?w2)) b
      = dicts w b" for g m pth
    using ne b
    by (auto simp: PipedriveAPI_send_request_def params_or_new_def Let_def dict_setitem_def
          split: option.splits)
  show ?thesis
    using keep [of "api (resources ?w2 res)" "''GET''" "FIND_REQ_PATH (resource_type (resources ?w2 res))"]
    by (auto simp: BaseResource_find_def p BaseResource_send_request_def
          process_success_def process_error_def Let_def split: prod.splits sum.splits)
qed

text \<open>
  C10, as the code has it: for every non-empty params mapping of the caller, after
  \<^verbatim>\<open>PipedriveAPI.send_request\<close> with a configured token the caller's mapping binds
  \<^verbatim>\<open>api_token\<close> to the token, and after \<^verbatim>\<open>BaseResource._find\<close> it binds \<^verbatim>\<open>term\<close>
  to the search term (also when the call raises). For a null or an empty params mapping
  both operations leave every dict that existed before the call, the caller's empty
  mapping among them, with the contents it had.
\<close>

theorem params_mutated_in_place:
  "(dicts w p \<noteq> [] \<longrightarrow>
      (api_token (gateways w self) \<noteq> PNone \<and> api_token (gateways w self) \<noteq> PStr [] \<longrightarrow>
         map_of (dicts (snd (PipedriveAPI_send_request transport self method path (Some p) data w)) p)
           ''api_token'' = Some (api_token (gateways w self)))
      \<and> map_of (dicts (snd (BaseResource_find transport res term (Some p) data w)) p) ''term''
          = Some term)
   \<and> (params = None \<or> (\<exists>q. params = Some q \<and> dicts w q = []) \<longrightarrow>
        (\<forall>b. allocated w b \<longrightarrow>
           dicts (snd (PipedriveAPI_send_request transport self method path params data w)) b
             = dicts w b
         \<and> dicts (snd (BaseResource_find transport res term params data w)) b = dicts w b))"
  using mutated_nonempty [of w p] alloc_frame_send_request [of params w] alloc_frame_find [of params w]
  by blast

theorem params_mutated_in_place_witness:
  "dicts example_world 2 \<noteq> []
   \<and> api_token (gateways example_world 0) = PStr ''t0k''
   \<and> map_of (dicts (snd (PipedriveAPI_send_request example_transport 0 ''GET'' (Some ''/deals'')
        (Some 2) PNone example_world)) 2) ''api_token'' = Some (PStr ''t0k'')
   \<and> map_of (dicts (snd (BaseResource_find example_transport 3 (PStr ''Ann'') (Some 2) PNone
        example_world)) 2) ''term'' = Some (PStr ''Ann'')
   \<and> dicts example_world 4 = [] \<and> allocated example_world 4
   \<and> dicts (snd (PipedriveAPI_send_request example_transport 0 ''GET'' (Some ''/deals'')
        (Some 4) PNone example_world)) 4 = []
   \<and> dicts (snd (BaseResource_find example_transport 3 (PStr ''Ann'') (Some 4) PNone
        example_world)) 4 = []"
proof -
  have d: "dicts example_world 2 \<noteq> []" by (simp add: example_world_def)
  have t: "api_token (gateways example_world 0) = PStr ''t0k''" by (simp add: example_world_def)
  have e: "dicts example_world 4 = []" and a: "allocated example_world 4"
    by (simp_all add: example_world_def allocated_def)
  from params_mutated_in_place [of example_world 2 0 example_transport "''GET''" "Some ''/deals''"
      PNone 3 "PStr ''Ann''" "Some 4"] d t e a
  show ?thesis by simp
qed

text \<open>
  C10 as stated fails for a mapping that is not null but empty: \<^verbatim>\<open>params or {}\<close>
  replaces it by a new dict, and the caller's mapping stays empty.
\<close>

theorem empty_params_counterexample:
  "dicts example_world 4 = []
   \<and> api_token (gateways example_world 0) = PStr ''t0k''
   \<and> dicts (snd (PipedriveAPI_send_request example_transport 0 ''GET'' (Some ''/deals'')
        (Some 4) PNone example_world)) 4 = []
   \<and> dicts (snd (BaseResource_find example_transport 3 (PStr ''Ann'') (Some 4) PNone
        example_world)) 4 = []"
  by (simp add: example_world_def PipedriveAPI_send_request_def params_or_new_def new_dict_def
        dict_setitem_def Let_def BaseResource_find_def BaseResource_send_request_def
        process_success_def process_error_def example_transport_def deals_def BASE_URL_def)

end
